theory Spec2Isabelle
  imports Main "HOL-Library.AList"
begin

section \<open>JavaScript values\<close>

text \<open>
  The validators traverse the untyped (\<open>any\<close>) trees that the XML parser and \<open>JSON.parse\<close>
  return. A value of such a tree is a \<open>jsval\<close>. An object is the list of its own
  enumerable properties in the order \<open>Object.keys\<close> lists them, each key once. Numbers are
  represented by integers: the code only tests a number for truthiness and prints it.
  A string is the list of its characters, a character outside ASCII being written as its
  UTF-8 bytes; the code concatenates strings, compares them and tests prefixes, suffixes
  and parts, which do not depend on the encoding. Where it counts the UTF-16 code units
  of a string or visits its code points, these are computed from the bytes.
\<close>

datatype jsval =
    JUndefined
  | JNull
  | JBool bool
  | JNum int
  | JStr string
  | JArr "jsval list"
  | JObj "(string \<times> jsval) list"

text \<open>A thrown value, with the text of its \<open>message\<close> property.\<close>

datatype exn = TypeError string | Error string

fun message :: "exn \<Rightarrow> string" where
  "message (TypeError m) = m"
| "message (Error m) = m"

text \<open>Truthiness, as \<open>!v\<close>, \<open>a || b\<close> and \<open>filter(Boolean)\<close> test it.\<close>

fun js_truthy :: "jsval \<Rightarrow> bool" where
  "js_truthy JUndefined = False"
| "js_truthy JNull = False"
| "js_truthy (JBool b) = b"
| "js_truthy (JNum n) = (n \<noteq> 0)"
| "js_truthy (JStr s) = (s \<noteq> [])"
| "js_truthy (JArr xs) = True"
| "js_truthy (JObj kvs) = True"

definition js_or :: "jsval \<Rightarrow> jsval \<Rightarrow> jsval" where
  "js_or a b = (if js_truthy a then a else b)"

definition nullish :: "jsval \<Rightarrow> bool" where
  "nullish v = (v = JUndefined \<or> v = JNull)"

text \<open>
  \<open>v[k]\<close> on a value that is neither \<open>undefined\<close> nor \<open>null\<close>: an own property of an
  object, \<open>undefined\<close> otherwise. The keys the code reads (\<open>definitions\<close>, \<open>binding\<close>,
  \<open>@_name\<close>, \<open>Envelope\<close>, \<open>Body\<close>, \<open>$id\<close>, a name ending in \<open>Request\<close> or \<open>Response\<close>,
  and so on) are never an array index, \<open>length\<close> or a prototype member, so a string, a
  number, a boolean and an array have none of them.
\<close>

fun get :: "jsval \<Rightarrow> string \<Rightarrow> jsval" where
  "get (JObj kvs) k = (case map_of kvs k of Some v \<Rightarrow> v | None \<Rightarrow> JUndefined)"
| "get v k = JUndefined"

text \<open>\<open>v?.[k]\<close> and \<open>v?.k\<close>.\<close>

definition opt_get :: "jsval \<Rightarrow> string \<Rightarrow> jsval" where
  "opt_get v k = (if nullish v then JUndefined else get v k)"

definition quoted :: "string \<Rightarrow> string" where
  "quoted k = [CHR 0x27] @ k @ [CHR 0x27]"

text \<open>\<open>v[k]\<close> and \<open>v.k\<close>, which throw on \<open>undefined\<close> and \<open>null\<close>.\<close>

fun read_prop :: "jsval \<Rightarrow> string \<Rightarrow> exn + jsval" where
  "read_prop JUndefined k =
     Inl (TypeError (''Cannot read properties of undefined (reading '' @ quoted k @ '')''))"
| "read_prop JNull k =
     Inl (TypeError (''Cannot read properties of null (reading '' @ quoted k @ '')''))"
| "read_prop v k = Inr (get v k)"

text \<open>Decimal digits of a number, for array indices and template literals.\<close>

fun show_nat :: "nat \<Rightarrow> string" where
  "show_nat n =
     (if n < 10 then [char_of (48 + n)]
      else show_nat (n div 10) @ [char_of (48 + n mod 10)])"

declare show_nat.simps [simp del]

definition show_int :: "int \<Rightarrow> string" where
  "show_int i = (if i < 0 then ''-'' @ show_nat (nat (- i)) else show_nat (nat i))"

fun join :: "string \<Rightarrow> string list \<Rightarrow> string" where
  "join sep [] = []"
| "join sep [x] = x"
| "join sep (x # y # ys) = x @ sep @ join sep (y # ys)"

text \<open>
  String conversion, as a template literal \<open>`${v}`\<close> does it. \<open>Array.prototype.join\<close>
  prints \<open>undefined\<close> and \<open>null\<close> elements as the empty string.
\<close>

fun js_toString :: "jsval \<Rightarrow> string" where
  "js_toString JUndefined = ''undefined''"
| "js_toString JNull = ''null''"
| "js_toString (JBool b) = (if b then ''true'' else ''false'')"
| "js_toString (JNum n) = show_int n"
| "js_toString (JStr s) = s"
| "js_toString (JArr xs) =
     join '','' (map (\<lambda>x. if x = JUndefined \<or> x = JNull then [] else js_toString x) xs)"
| "js_toString (JObj kvs) = ''[object Object]''"

definition js_join :: "string \<Rightarrow> jsval list \<Rightarrow> string" where
  "js_join sep xs =
     join sep (map (\<lambda>x. if x = JUndefined \<or> x = JNull then [] else js_toString x) xs)"

text \<open>
  The code points of a string: a byte that is not a continuation byte (\<open>10xxxxxx\<close>)
  starts a code point, and the continuation bytes after it belong to it. A code point of
  four bytes lies outside the basic plane and takes two UTF-16 code units, any other takes
  one; \<open>utf16_length\<close> is the \<open>length\<close> of the JavaScript string.
\<close>

definition is_continuation :: "char \<Rightarrow> bool" where
  "is_continuation c = ((of_char c :: nat) div 64 = 2)"

function code_points :: "string \<Rightarrow> string list" where
  "code_points [] = []"
| "code_points (c # cs) =
     (c # takeWhile is_continuation cs) # code_points (dropWhile is_continuation cs)"
  by pat_completeness auto
termination
  by (relation "measure length") (auto simp: length_dropWhile_le less_Suc_eq_le)

definition utf16_length :: "string \<Rightarrow> nat" where
  "utf16_length s = sum_list (map (\<lambda>cp. if length cp = 4 then 2 else 1) (code_points s))"

text \<open>
  \<open>Object.keys(v)\<close> for a value that is neither \<open>undefined\<close> nor \<open>null\<close>: the property
  names of an object, the indices of an array or of a string (one for each UTF-16 code
  unit), nothing for a number or a boolean.
\<close>

fun Object_keys :: "jsval \<Rightarrow> string list" where
  "Object_keys (JObj kvs) = map fst kvs"
| "Object_keys (JArr xs) = map show_nat [0..<length xs]"
| "Object_keys (JStr s) = map show_nat [0..<utf16_length s]"
| "Object_keys v = []"

text \<open>
  \<open>xs.includes(x)\<close> on an array \<open>xs\<close> of one parsed document for a value \<open>x\<close> of another:
  the comparison is SameValueZero, under which a string, a number, a boolean and \<open>null\<close>
  are compared by value, and an object or an array equals only itself, which no value of
  another document is.
\<close>

fun is_primitive :: "jsval \<Rightarrow> bool" where
  "is_primitive (JArr xs) = False"
| "is_primitive (JObj kvs) = False"
| "is_primitive v = True"

definition array_includes :: "jsval list \<Rightarrow> jsval \<Rightarrow> bool" where
  "array_includes xs x = (is_primitive x \<and> x \<in> set xs)"

text \<open>\<open>s.includes(t)\<close> on strings: \<open>t\<close> occurs in \<open>s\<close> as a contiguous part.\<close>

fun is_substring :: "string \<Rightarrow> string \<Rightarrow> bool" where
  "is_substring t [] = (t = [])"
| "is_substring t (c # cs) = (take (length t) (c # cs) = t \<or> is_substring t cs)"

text \<open>
  \<open>v.includes(x)\<close> for a truthy \<open>v\<close> named \<open>name\<close> in the source: an array and a string
  have the method (the string one converts its argument to a string), any other value
  has not, and the call throws.
\<close>

fun js_includes :: "string \<Rightarrow> jsval \<Rightarrow> jsval \<Rightarrow> exn + bool" where
  "js_includes name (JArr xs) x = Inr (array_includes xs x)"
| "js_includes name (JStr s) x = Inr (is_substring (js_toString x) s)"
| "js_includes name v x = Inl (TypeError (name @ ''.includes is not a function''))"

text \<open>
  The values that \<open>for (const x of v)\<close> visits for a truthy \<open>v\<close> named \<open>name\<close> in the
  source: the elements of an array, the code points of a string; any other value is not
  iterable, and the loop throws before its first round.
\<close>

fun js_iterate :: "string \<Rightarrow> jsval \<Rightarrow> exn + jsval list" where
  "js_iterate name (JArr xs) = Inr xs"
| "js_iterate name (JStr s) = Inr (map JStr (code_points s))"
| "js_iterate name v = Inl (TypeError (name @ '' is not iterable''))"

text \<open>\<open>Array.isArray(v) ? v : [v]\<close>.\<close>

fun as_array :: "jsval \<Rightarrow> jsval list" where
  "as_array (JArr xs) = xs"
| "as_array v = [v]"

definition startsWith :: "string \<Rightarrow> string \<Rightarrow> bool" where
  "startsWith s p = (take (length p) s = p)"

section \<open>WSDL validator (src/schemas/wsdl-validator.ts)\<close>

record WsdlElement =
  el_name :: jsval
  el_type :: jsval
  el_required :: bool

record WsdlOperation =
  op_name :: jsval
  soapAction :: jsval
  op_input :: "WsdlElement list"
  op_output :: "WsdlElement list"

record WsdlValidationResult =
  valid :: bool
  missingElements :: "jsval list"
  unexpectedElements :: "string list"
  operation :: string

datatype direction = Input | Output

text \<open>
  The two private maps of the class. A \<open>Map\<close> keeps its keys in insertion order and \<open>set\<close>
  on a present key replaces the value in place, which is \<open>AList.update\<close>. The keys are
  attribute values of the parsed document, compared by value.
\<close>

record WsdlValidator =
  operations :: "(jsval \<times> WsdlOperation) list"
  rawElements :: "(jsval \<times> jsval) list"

definition new_WsdlValidator :: WsdlValidator where
  "new_WsdlValidator = \<lparr>operations = [], rawElements = []\<rparr>"

text \<open>The body of the loop of \<open>extractElements\<close>, then the method.\<close>

definition extractElements_step :: "jsval \<Rightarrow> WsdlValidator \<Rightarrow> WsdlValidator" where
  "extractElements_step element st =
     (if js_truthy (opt_get element ''@_name'')
      then st\<lparr>rawElements := AList.update (get element ''@_name'') element (rawElements st)\<rparr>
      else st)"

definition extractElements :: "jsval \<Rightarrow> WsdlValidator \<Rightarrow> exn option \<times> WsdlValidator" where
  "extractElements parsed st =
     (case read_prop parsed ''definitions'' of
        Inl e \<Rightarrow> (Some e, st)
      | Inr definitions \<Rightarrow>
          (let schema = opt_get (opt_get definitions ''types'') ''schema'' in
           if \<not> js_truthy schema then (None, st)
           else (None, fold extractElements_step (as_array (get schema ''element'')) st)))"

text \<open>The callback that \<open>getElementFields\<close> maps over the items of the sequence.\<close>

definition field_of :: "jsval \<Rightarrow> WsdlElement" where
  "field_of item =
     \<lparr>el_name = get item ''@_name'',
      el_type = js_or (get item ''@_type'') (JStr ''complex''),
      el_required = (get item ''@_minOccurs'' \<noteq> JStr ''0'')\<rparr>"

definition getElementFields :: "WsdlValidator \<Rightarrow> string \<Rightarrow> WsdlElement list" where
  "getElementFields st elementName =
     (let element = (case map_of (rawElements st) (JStr elementName) of
                       Some v \<Rightarrow> v | None \<Rightarrow> JUndefined) in
      if \<not> js_truthy element then []
      else
        let complexType = get element ''complexType'';
            sequence = js_or (opt_get (opt_get complexType ''sequence'') ''element'')
                             (opt_get complexType ''sequence'') in
        if \<not> js_truthy sequence then []
        else
          map field_of
              (filter (\<lambda>item. js_truthy (opt_get item ''@_name'')) (as_array sequence)))"

text \<open>
  The loop of \<open>extractOperations\<close>: \<open>op["@_name"]\<close> throws on an \<open>undefined\<close> or \<open>null\<close>
  entry, and the operations stored before it stay in the map.
\<close>

fun extractOperations_loop :: "jsval list \<Rightarrow> WsdlValidator \<Rightarrow> exn option \<times> WsdlValidator" where
  "extractOperations_loop [] st = (None, st)"
| "extractOperations_loop (opn # ops) st =
     (case read_prop opn ''@_name'' of
        Inl e \<Rightarrow> (Some e, st)
      | Inr name \<Rightarrow>
          (let soapAction = js_or (opt_get (get opn ''operation'') ''@_soapAction'') (JStr '''');
               inputElement = getElementFields st (js_toString name @ ''Request'');
               outputElement = getElementFields st (js_toString name @ ''Response'')
           in extractOperations_loop ops
                (st\<lparr>operations :=
                      AList.update name
                        \<lparr>op_name = name, soapAction = soapAction,
                         op_input = inputElement, op_output = outputElement\<rparr>
                        (operations st)\<rparr>)))"

definition extractOperations :: "jsval \<Rightarrow> WsdlValidator \<Rightarrow> exn option \<times> WsdlValidator" where
  "extractOperations parsed st =
     (case read_prop parsed ''definitions'' of
        Inl e \<Rightarrow> (Some e, st)
      | Inr definitions \<Rightarrow>
          (let binding = opt_get definitions ''binding'' in
           if \<not> js_truthy binding then (None, st)
           else extractOperations_loop (as_array (get binding ''operation'')) st))"

text \<open>
  \<open>loadWsdl\<close>. Reading the file and the XML parser (fast-xml-parser) are outside the
  repository: \<open>readFile\<close> gives the content of the resolved path or throws, \<open>xmlParse\<close>
  gives the parsed tree or throws.
\<close>

definition loadWsdl ::
  "(string \<Rightarrow> exn + string) \<Rightarrow> (string \<Rightarrow> exn + jsval) \<Rightarrow> string \<Rightarrow> WsdlValidator
     \<Rightarrow> exn option \<times> WsdlValidator" where
  "loadWsdl readFile xmlParse wsdlPath st =
     (case readFile wsdlPath of
        Inl e \<Rightarrow> (Some e, st)
      | Inr wsdlContent \<Rightarrow>
          (case xmlParse wsdlContent of
             Inl e \<Rightarrow> (Some e, st)
           | Inr parsed \<Rightarrow>
               (case extractElements parsed st of
                  (Some e, st1) \<Rightarrow> (Some e, st1)
                | (None, st1) \<Rightarrow> extractOperations parsed st1)))"

definition getOperations :: "WsdlValidator \<Rightarrow> WsdlOperation list" where
  "getOperations st = map snd (operations st)"

text \<open>The two loops at the end of \<open>validateSoapBody\<close>.\<close>

definition missing_of :: "WsdlElement list \<Rightarrow> string list \<Rightarrow> jsval list" where
  "missing_of expectedFields actualKeys =
     map el_name
       (filter (\<lambda>field. el_required field \<and> el_name field \<notin> set (map JStr actualKeys))
               expectedFields)"

definition unexpected_of :: "WsdlElement list \<Rightarrow> string list \<Rightarrow> string list" where
  "unexpected_of expectedFields actualKeys =
     filter (\<lambda>k. JStr k \<notin> set (map el_name expectedFields) \<and> \<not> startsWith k ''@_'')
            actualKeys"

text \<open>
  \<open>validateSoapBody\<close>. \<open>xmlParse\<close> is the module's parser applied to the envelope: the
  parsed tree, or the exception it throws.
\<close>

definition validateSoapBody ::
  "(string \<Rightarrow> exn + jsval) \<Rightarrow> WsdlValidator \<Rightarrow> string \<Rightarrow> string \<Rightarrow> direction
     \<Rightarrow> exn + WsdlValidationResult" where
  "validateSoapBody xmlParse st xml operationName dir =
     (case map_of (operations st) (JStr operationName) of
        None \<Rightarrow>
          Inr \<lparr>valid = False,
               missingElements = [JStr (''Operation not found: '' @ operationName)],
               unexpectedElements = [],
               operation = operationName\<rparr>
      | Some opn \<Rightarrow>
          (let expectedFields = (if dir = Input then op_input opn else op_output opn) in
           case xmlParse xml of
             Inl e \<Rightarrow> Inl e
           | Inr parsed \<Rightarrow>
               (case read_prop parsed ''Envelope'' of
                  Inl e \<Rightarrow> Inl e
                | Inr envelope \<Rightarrow>
                    (let body = opt_get envelope ''Body'' in
                     if \<not> js_truthy body then
                       Inr \<lparr>valid = False,
                            missingElements = [JStr ''SOAP Body not found''],
                            unexpectedElements = [],
                            operation = operationName\<rparr>
                     else
                       let responseName =
                             (if dir = Input then operationName @ ''Request''
                              else operationName @ ''Response'');
                           responseBody = get body responseName in
                       if \<not> js_truthy responseBody then
                         Inr \<lparr>valid = False,
                              missingElements =
                                [JStr (responseName @ '' element not found in SOAP Body'')],
                              unexpectedElements = [],
                              operation = operationName\<rparr>
                       else
                         let actualKeys = Object_keys responseBody;
                             missing = missing_of expectedFields actualKeys;
                             unexpected = unexpected_of expectedFields actualKeys in
                         Inr \<lparr>valid = (length missing = 0),
                              missingElements = missing,
                              unexpectedElements = unexpected,
                              operation = operationName\<rparr>))))"

section \<open>JSON schema validator (src/schemas/schema-validator.ts)\<close>

text \<open>One violation reported by a compiled validator (Ajv's \<open>ErrorObject\<close>).\<close>

record ErrorObject =
  instancePath :: string
  keyword :: string
  error_message :: "string option"

text \<open>
  A compiled validating function, as \<open>ajv.compile\<close> returns it. Calling it on a payload
  returns the verdict and stores the violations in its own \<open>errors\<close> property: \<open>run\<close>
  gives both for a payload, \<open>errors\<close> is the current value of the property (\<open>None\<close> for
  \<open>null\<close> and \<open>undefined\<close>).
\<close>

record ValidateFunction =
  run :: "jsval \<Rightarrow> bool \<times> ErrorObject list option"
  errors :: "ErrorObject list option"

record ValidationResult =
  vr_valid :: bool
  vr_errors :: "ErrorObject list option"
  vr_schemaId :: string

text \<open>The registry: the \<open>validators\<close> map of the class, in insertion order.\<close>

record SchemaValidator =
  validators :: "(jsval \<times> ValidateFunction) list"

definition new_SchemaValidator :: SchemaValidator where
  "new_SchemaValidator = \<lparr>validators = []\<rparr>"

text \<open>
  What the class takes from its environment: \<open>path.resolve\<close> and \<open>path.join\<close>,
  \<open>JSON.parse(fs.readFileSync(p, "utf-8"))\<close>, \<open>fs.readdirSync\<close>, and \<open>this.ajv.compile\<close>.
\<close>

record sv_env =
  pathResolve :: "string \<Rightarrow> string"
  pathJoin :: "string \<Rightarrow> string \<Rightarrow> string"
  readJson :: "string \<Rightarrow> exn + jsval"
  readdirSync :: "string \<Rightarrow> exn + string list"
  compile :: "jsval \<Rightarrow> exn + ValidateFunction"

text \<open>An optional string argument as a value: \<open>undefined\<close> when it is not passed.\<close>

fun opt_str :: "string option \<Rightarrow> jsval" where
  "opt_str None = JUndefined"
| "opt_str (Some s) = JStr s"

text \<open>
  \<open>schemaId || schemaContent.$id || absolutePath\<close>: the property is read only when the
  first operand is falsy, and reading it throws when the document is \<open>null\<close>.
\<close>

definition resolve_id :: "string option \<Rightarrow> jsval \<Rightarrow> string \<Rightarrow> exn + jsval" where
  "resolve_id schemaId schemaContent absolutePath =
     (if js_truthy (opt_str schemaId) then Inr (opt_str schemaId)
      else case read_prop schemaContent ''$id'' of
             Inl e \<Rightarrow> Inl e
           | Inr declared \<Rightarrow> Inr (js_or declared (JStr absolutePath)))"

definition loadSchema ::
  "sv_env \<Rightarrow> string \<Rightarrow> string option \<Rightarrow> SchemaValidator \<Rightarrow> exn option \<times> SchemaValidator" where
  "loadSchema env schemaPath schemaId st =
     (let absolutePath = pathResolve env schemaPath in
      case readJson env absolutePath of
        Inl e \<Rightarrow> (Some e, st)
      | Inr schemaContent \<Rightarrow>
          (case resolve_id schemaId schemaContent absolutePath of
             Inl e \<Rightarrow> (Some e, st)
           | Inr ident \<Rightarrow>
               (case compile env schemaContent of
                  Inl e \<Rightarrow> (Some e, st)
                | Inr validate \<Rightarrow>
                    (None, st\<lparr>validators := AList.update ident validate (validators st)\<rparr>))))"

definition endsWith :: "string \<Rightarrow> string \<Rightarrow> bool" where
  "endsWith s p = (length p \<le> length s \<and> drop (length s - length p) s = p)"

text \<open>\<open>s.replace(pat, rep)\<close> with a string pattern: the first occurrence only.\<close>

fun replace_first :: "string \<Rightarrow> string \<Rightarrow> string \<Rightarrow> string" where
  "replace_first pat rep [] = (if pat = [] then rep else [])"
| "replace_first pat rep (c # cs) =
     (if take (length pat) (c # cs) = pat then rep @ drop (length pat) (c # cs)
      else c # replace_first pat rep cs)"

fun loadAll_loop ::
  "sv_env \<Rightarrow> string \<Rightarrow> string list \<Rightarrow> SchemaValidator \<Rightarrow> exn option \<times> SchemaValidator" where
  "loadAll_loop env absoluteDir [] st = (None, st)"
| "loadAll_loop env absoluteDir (file # files) st =
     (let filePath = pathJoin env absoluteDir file;
          schemaId = replace_first ''.schema.json'' [] file in
      case loadSchema env filePath (Some schemaId) st of
        (Some e, st1) \<Rightarrow> (Some e, st1)
      | (None, st1) \<Rightarrow> loadAll_loop env absoluteDir files st1)"

definition loadAllMessageSchemas ::
  "sv_env \<Rightarrow> string \<Rightarrow> SchemaValidator \<Rightarrow> exn option \<times> SchemaValidator" where
  "loadAllMessageSchemas env schemasDir st =
     (let absoluteDir = pathResolve env schemasDir in
      case readdirSync env absoluteDir of
        Inl e \<Rightarrow> (Some e, st)
      | Inr entries \<Rightarrow>
          loadAll_loop env absoluteDir (filter (\<lambda>f. endsWith f ''.json'') entries) st)"

text \<open>
  \<open>validate\<close>. The call of the compiled function leaves its violations in the function's
  \<open>errors\<close> property, so the registry is returned with that property updated; the result is
  built from the verdict and from the property as it is after the call.
\<close>

definition validate ::
  "SchemaValidator \<Rightarrow> string \<Rightarrow> jsval \<Rightarrow> (exn + ValidationResult) \<times> SchemaValidator" where
  "validate st schemaId payload =
     (case map_of (validators st) (JStr schemaId) of
        None \<Rightarrow>
          (Inl (Error (''Schema not loaded: '' @ schemaId @ ''. Available: ''
                       @ js_join '', '' (map fst (validators st)))), st)
      | Some vf \<Rightarrow>
          (let verdict = fst (run vf payload);
               called = vf\<lparr>errors := snd (run vf payload)\<rparr>;
               st1 = st\<lparr>validators := AList.update (JStr schemaId) called (validators st)\<rparr>
           in (Inr \<lparr>vr_valid = verdict,
                    vr_errors = (if verdict then None else errors called),
                    vr_schemaId = schemaId\<rparr>, st1)))"

section \<open>Schema drift check (scripts/schema-drift-check.ts)\<close>

record DriftResult =
  schema :: string
  drifted :: bool
  details :: "string list"

text \<open>
  The response of \<open>fetch\<close>: \<open>ok\<close>, \<open>status\<close>, and what \<open>await response.text()\<close> and
  \<open>await response.json()\<close> give (a value, or the exception they reject with). The
  script asserts the type \<open>{ required?: string[] }\<close> for the JSON documents it reads, which
  checks nothing when it runs: a document is any JSON value.
\<close>

record Response =
  ok :: bool
  status :: nat
  res_text :: "exn + string"
  res_json :: "exn + jsval"

text \<open>
  What the script takes from its environment: the file system, the two environment
  variables, \<open>fetch\<close> (which throws when the endpoint cannot be reached), the XML parser
  and \<open>JSON.parse\<close>.
\<close>

record drift_env =
  path_resolve :: "string \<Rightarrow> string"
  existsSync :: "string \<Rightarrow> bool"
  readFileSync :: "string \<Rightarrow> exn + string"
  APP2_STAGING_URL :: "string option"
  INTEGRATION_LAYER_URL :: "string option"
  fetch :: "string \<Rightarrow> exn + Response"
  xml_parse :: "string \<Rightarrow> exn + jsval"
  JSON_parse :: "string \<Rightarrow> exn + jsval"

text \<open>The dash of the two "not set" messages (U+2014), as its UTF-8 bytes.\<close>

definition em_dash :: string where
  "em_dash = [CHR 0xE2, CHR 0x80, CHR 0x94]"

text \<open>\<open>result.details.push(d)\<close>, and the same followed by \<open>result.drifted = true\<close>.\<close>

definition push_detail :: "string \<Rightarrow> DriftResult \<Rightarrow> DriftResult" where
  "push_detail d r = r\<lparr>details := details r @ [d]\<rparr>"

definition push_drift :: "string \<Rightarrow> DriftResult \<Rightarrow> DriftResult" where
  "push_drift d r = (push_detail d r)\<lparr>drifted := True\<rparr>"

text \<open>\<open>operations.map((op) => op["@_name"])\<close>, which throws on an \<open>undefined\<close> entry.\<close>

fun map_names :: "jsval list \<Rightarrow> exn + jsval list" where
  "map_names [] = Inr []"
| "map_names (opn # ops) =
     (case read_prop opn ''@_name'' of
        Inl e \<Rightarrow> Inl e
      | Inr n \<Rightarrow> (case map_names ops of Inl e \<Rightarrow> Inl e | Inr ns \<Rightarrow> Inr (n # ns)))"

definition extractOperationNames :: "jsval \<Rightarrow> exn + jsval list" where
  "extractOperationNames parsed =
     (case read_prop parsed ''definitions'' of
        Inl e \<Rightarrow> Inl e
      | Inr definitions \<Rightarrow>
          (let binding = opt_get definitions ''binding'' in
           if \<not> js_truthy binding then Inr []
           else case map_names (as_array (get binding ''operation'')) of
                  Inl e \<Rightarrow> Inl e
                | Inr names \<Rightarrow> Inr (filter js_truthy names)))"

text \<open>The two comparison loops and the closing test of \<open>checkWsdlDrift\<close>.\<close>

definition compare_operations :: "jsval list \<Rightarrow> jsval list \<Rightarrow> DriftResult \<Rightarrow> DriftResult" where
  "compare_operations localOps liveOps result =
     (let r1 = fold (\<lambda>opn r. if \<not> array_includes liveOps opn
                              then push_drift (''Operation REMOVED from live WSDL: '' @ js_toString opn) r
                              else r) localOps result;
          r2 = fold (\<lambda>opn r. if \<not> array_includes localOps opn
                              then push_drift (''New operation in live WSDL: '' @ js_toString opn) r
                              else r) liveOps r1
      in if \<not> drifted r2 then push_detail ''All operations match'' r2 else r2)"

text \<open>
  The \<open>try\<close> block of \<open>checkWsdlDrift\<close>: the exception thrown inside it, if any, and the
  result as it is at that moment.
\<close>

definition checkWsdlDrift_try ::
  "drift_env \<Rightarrow> string \<Rightarrow> string \<Rightarrow> DriftResult \<Rightarrow> exn option \<times> DriftResult" where
  "checkWsdlDrift_try env app2Url wsdlPath result =
     (case fetch env (app2Url @ ''/ws/orders?wsdl'') of
        Inl e \<Rightarrow> (Some e, result)
      | Inr liveResponse \<Rightarrow>
          if \<not> ok liveResponse then
            (None, push_drift (''Failed to fetch live WSDL: HTTP '' @ show_nat (status liveResponse))
                              result)
          else
            (case res_text liveResponse of
               Inl e \<Rightarrow> (Some e, result)
             | Inr liveWsdl \<Rightarrow>
            (case readFileSync env wsdlPath of
               Inl e \<Rightarrow> (Some e, result)
             | Inr localWsdl \<Rightarrow>
            (case xml_parse env localWsdl of
               Inl e \<Rightarrow> (Some e, result)
             | Inr localParsed \<Rightarrow>
            (case xml_parse env liveWsdl of
               Inl e \<Rightarrow> (Some e, result)
             | Inr liveParsed \<Rightarrow>
            (case extractOperationNames localParsed of
               Inl e \<Rightarrow> (Some e, result)
             | Inr localOps \<Rightarrow>
            (case extractOperationNames liveParsed of
               Inl e \<Rightarrow> (Some e, result)
             | Inr liveOps \<Rightarrow> (None, compare_operations localOps liveOps result))))))))"

definition checkWsdlDrift :: "drift_env \<Rightarrow> DriftResult" where
  "checkWsdlDrift env =
     (let result = \<lparr>schema = ''App2 WSDL (order-service.wsdl)'', drifted = False, details = []\<rparr>;
          wsdlPath = path_resolve env ''schemas/wsdl/order-service.wsdl''
      in if \<not> existsSync env wsdlPath then push_drift ''Local WSDL file not found'' result
         else if \<not> js_truthy (opt_str (APP2_STAGING_URL env)) then
           push_detail (''APP2_STAGING_URL not set '' @ em_dash @ '' skipping live WSDL fetch'') result
         else
           case checkWsdlDrift_try env (the (APP2_STAGING_URL env)) wsdlPath result of
             (Some error, r) \<Rightarrow> push_detail (''Error checking WSDL drift: '' @ message error) r
           | (None, r) \<Rightarrow> r)"

text \<open>
  One comparison loop of \<open>checkMessageSchemaDrift\<close>, over the values that remain to be
  visited: a value that \<open>other.includes\<close> does not find is reported with \<open>prefix\<close>. The
  call throws when \<open>other\<close> has no such method, and what was pushed before stays in the
  result.
\<close>

fun report_absent ::
  "string \<Rightarrow> string \<Rightarrow> jsval \<Rightarrow> jsval list \<Rightarrow> DriftResult \<Rightarrow> exn option \<times> DriftResult" where
  "report_absent prefix otherName other [] r = (None, r)"
| "report_absent prefix otherName other (field # rest) r =
     (case js_includes otherName other field of
        Inl e \<Rightarrow> (Some e, r)
      | Inr found \<Rightarrow>
          report_absent prefix otherName other rest
            (if \<not> found then push_drift (prefix @ js_toString field) r else r))"

text \<open>The two loops over the required fields and the closing test.\<close>

definition compare_required :: "jsval \<Rightarrow> jsval \<Rightarrow> DriftResult \<Rightarrow> exn option \<times> DriftResult" where
  "compare_required localRequired liveRequired result =
     (case js_iterate ''localRequired'' localRequired of
        Inl e \<Rightarrow> (Some e, result)
      | Inr localFields \<Rightarrow>
     (case report_absent ''Required field removed from live schema: '' ''liveRequired''
             liveRequired localFields result of
        (Some e, r1) \<Rightarrow> (Some e, r1)
      | (None, r1) \<Rightarrow>
     (case js_iterate ''liveRequired'' liveRequired of
        Inl e \<Rightarrow> (Some e, r1)
      | Inr liveFields \<Rightarrow>
     (case report_absent ''New required field in live schema: '' ''localRequired''
             localRequired liveFields r1 of
        (Some e, r2) \<Rightarrow> (Some e, r2)
      | (None, r2) \<Rightarrow>
          (None, if \<not> drifted r2 then push_detail ''Message schemas match'' r2 else r2)))))"

text \<open>
  The \<open>try\<close> block of \<open>checkMessageSchemaDrift\<close>. \<open>doc.required\<close> throws when the
  document is \<open>null\<close>; in \<open>doc.required || []\<close> an array is truthy, also the empty one.
\<close>

definition checkMessageSchemaDrift_try ::
  "drift_env \<Rightarrow> string \<Rightarrow> DriftResult \<Rightarrow> exn option \<times> DriftResult" where
  "checkMessageSchemaDrift_try env integrationLayerUrl result =
     (case fetch env (integrationLayerUrl @ ''/api/schemas/order-events'') of
        Inl e \<Rightarrow> (Some e, result)
      | Inr schemaResponse \<Rightarrow>
          if \<not> ok schemaResponse then
            (None, push_detail
               (''Integration Layer does not expose schemas via API '' @ em_dash
                  @ '' manual check required'') result)
          else
            (case res_json schemaResponse of
               Inl e \<Rightarrow> (Some e, result)
             | Inr liveSchema \<Rightarrow>
            (case readFileSync env
                    (path_resolve env ''schemas/messages/order-created-event.schema.json'') of
               Inl e \<Rightarrow> (Some e, result)
             | Inr content \<Rightarrow>
            (case JSON_parse env content of
               Inl e \<Rightarrow> (Some e, result)
             | Inr localSchema \<Rightarrow>
            (case read_prop localSchema ''required'' of
               Inl e \<Rightarrow> (Some e, result)
             | Inr localDeclared \<Rightarrow>
            (case read_prop liveSchema ''required'' of
               Inl e \<Rightarrow> (Some e, result)
             | Inr liveDeclared \<Rightarrow>
                 compare_required (js_or localDeclared (JArr [])) (js_or liveDeclared (JArr []))
                   result))))))"

definition checkMessageSchemaDrift :: "drift_env \<Rightarrow> DriftResult" where
  "checkMessageSchemaDrift env =
     (let result = \<lparr>schema = ''Integration Layer Message Schemas'', drifted = False,
                    details = []\<rparr>
      in if \<not> js_truthy (opt_str (INTEGRATION_LAYER_URL env)) then
           push_detail (''INTEGRATION_LAYER_URL not set '' @ em_dash @ '' skipping live schema fetch'')
             result
         else
           case checkMessageSchemaDrift_try env (the (INTEGRATION_LAYER_URL env)) result of
             (Some error, r) \<Rightarrow>
               push_detail (''Error checking message schema drift: '' @ message error) r
           | (None, r) \<Rightarrow> r)"

text \<open>The exit test of \<open>main\<close>: \<open>results.some((r) => r.drifted)\<close>.\<close>

definition hasDrift :: "DriftResult list \<Rightarrow> bool" where
  "hasDrift results = list_ex drifted results"

section \<open>Registries that a program can build\<close>

text \<open>
  The registries reachable from a new \<open>SchemaValidator\<close> through its public methods, in any
  environment. \<open>path.resolve\<close> returns an absolute path, which is never the empty string:
  this is the one fact about the environment the rules ask for.
\<close>

inductive registry_reachable :: "SchemaValidator \<Rightarrow> bool" where
  reach_new: "registry_reachable new_SchemaValidator"
| reach_loadSchema:
    "registry_reachable st \<Longrightarrow> (\<forall>p. pathResolve env p \<noteq> []) \<Longrightarrow>
     registry_reachable (snd (loadSchema env schemaPath schemaId st))"
| reach_loadAll:
    "registry_reachable st \<Longrightarrow> (\<forall>p. pathResolve env p \<noteq> []) \<Longrightarrow>
     registry_reachable (snd (loadAllMessageSchemas env schemasDir st))"
| reach_validate:
    "registry_reachable st \<Longrightarrow> registry_reachable (snd (validate st schemaId payload))"

section \<open>Example documents\<close>

text \<open>
  A WSDL as the parser returns it: \<open>CreateOrder\<close> with a request and a response element,
  and \<open>Ping\<close>, whose request and response elements are not declared.
\<close>

definition wsdl_example :: jsval where
  "wsdl_example =
     JObj [(''definitions'', JObj [
       (''types'', JObj [(''schema'', JObj [(''element'', JArr [
          JObj [(''@_name'', JStr ''CreateOrderRequest''),
                (''complexType'', JObj [(''sequence'', JObj [(''element'', JArr [
                   JObj [(''@_name'', JStr ''customerId''), (''@_type'', JStr ''xs:string'')],
                   JObj [(''@_name'', JStr ''shippingAddress''), (''@_type'', JStr ''tns:Address'')],
                   JObj [(''@_name'', JStr ''notes''), (''@_type'', JStr ''xs:string''),
                         (''@_minOccurs'', JStr ''0'')]])])])],
          JObj [(''@_name'', JStr ''CreateOrderResponse''),
                (''complexType'', JObj [(''sequence'', JObj [(''element'',
                   JObj [(''@_name'', JStr ''orderId''), (''@_type'', JStr ''xs:string'')])])])]])])]),
       (''binding'', JObj [(''operation'', JArr [
          JObj [(''@_name'', JStr ''CreateOrder''),
                (''operation'', JObj [(''@_soapAction'', JStr ''urn:CreateOrder'')])],
          JObj [(''@_name'', JStr ''Ping'')]])])])]"

definition example_validator :: WsdlValidator where
  "example_validator =
     snd (loadWsdl (\<lambda>p. Inr ''wsdl'') (\<lambda>s. Inr wsdl_example)
            ''schemas/wsdl/order-service.wsdl'' new_WsdlValidator)"

text \<open>A \<open>CreateOrder\<close> request without \<open>shippingAddress\<close> and with an undeclared child.\<close>

definition envelope_missing_address :: jsval where
  "envelope_missing_address =
     JObj [(''Envelope'', JObj [(''Body'', JObj [(''CreateOrderRequest'',
        JObj [(''customerId'', JStr ''CUST-12345''), (''priority'', JNum 1)])])])]"

text \<open>
  A registry with one schema, loaded with the identifier \<open>""\<close> from a document whose
  \<open>$id\<close> is \<open>""\<close>. Its compiled validator accepts the payloads that have an \<open>eventId\<close>.
\<close>

definition missing_eventId :: ErrorObject where
  "missing_eventId =
     \<lparr>instancePath = [], keyword = ''required'',
      error_message = Some ''must have required property eventId''\<rparr>"

definition example_compiled :: ValidateFunction where
  "example_compiled =
     \<lparr>run = (\<lambda>payload. if get payload ''eventId'' = JUndefined
                        then (False, Some [missing_eventId]) else (True, None)),
      errors = None\<rparr>"

definition example_sv_env :: sv_env where
  "example_sv_env =
     \<lparr>pathResolve = (\<lambda>p. ''/repo/'' @ p),
      pathJoin = (\<lambda>d f. d @ ''/'' @ f),
      readJson = (\<lambda>p. Inr (JObj [(''$id'', JStr []), (''required'', JArr [JStr ''eventId''])])),
      readdirSync = (\<lambda>d. Inr [''order-created-event.schema.json'']),
      compile = (\<lambda>doc. Inr example_compiled)\<rparr>"

definition example_registry :: SchemaValidator where
  "example_registry =
     snd (loadSchema example_sv_env ''schemas/messages/order-created-event.schema.json''
            (Some []) new_SchemaValidator)"

text \<open>The same environment with a document that declares an \<open>$id\<close>.\<close>

definition example_sv_env_declared :: sv_env where
  "example_sv_env_declared =
     example_sv_env
       \<lparr>readJson := (\<lambda>p. Inr (JObj [(''$id'', JStr ''urn:order-created-event''),
                                     (''required'', JArr [JStr ''eventId''])]))\<rparr>"

text \<open>The registry that \<open>loadAllMessageSchemas\<close> builds in the same environment.\<close>

definition example_registry_all :: SchemaValidator where
  "example_registry_all =
     snd (loadAllMessageSchemas example_sv_env ''schemas/messages'' new_SchemaValidator)"

text \<open>
  Environments of the drift script. In the first the live WSDL has lost \<open>GetOrderStatus\<close>
  and the live message schema requires \<open>priority\<close> in addition; in the second the live
  documents have the names of the local ones; in the third \<open>fetch\<close> throws (the endpoint
  cannot be reached).
\<close>

definition wsdl_local :: jsval where
  "wsdl_local =
     JObj [(''definitions'', JObj [(''binding'', JObj [(''operation'', JArr [
        JObj [(''@_name'', JStr ''CreateOrder'')],
        JObj [(''@_name'', JStr ''GetOrderStatus'')]])])])]"

definition wsdl_live :: jsval where
  "wsdl_live =
     JObj [(''definitions'', JObj [(''binding'', JObj [(''operation'',
        JObj [(''@_name'', JStr ''CreateOrder'')])])])]"

definition drift_env_example :: drift_env where
  "drift_env_example =
     \<lparr>path_resolve = (\<lambda>p. ''/repo/'' @ p),
      existsSync = (\<lambda>p. True),
      readFileSync = (\<lambda>p. Inr ''local''),
      APP2_STAGING_URL = Some ''https://app2.test'',
      INTEGRATION_LAYER_URL = Some ''https://il.test'',
      fetch = (\<lambda>url. Inr \<lparr>ok = True, status = 200, res_text = Inr ''live'',
                           res_json = Inr (JObj [(''required'', JArr [JStr ''eventId'',
                              JStr ''eventType'', JStr ''timestamp'', JStr ''source'',
                              JStr ''payload'', JStr ''priority''])])\<rparr>),
      xml_parse = (\<lambda>s. if s = ''local'' then Inr wsdl_local else Inr wsdl_live),
      JSON_parse = (\<lambda>s. Inr (JObj [(''$id'', JStr ''order-created-event''),
                              (''required'', JArr [JStr ''eventId'', JStr ''eventType'',
                                 JStr ''timestamp'', JStr ''source'', JStr ''payload''])]))\<rparr>"

definition drift_env_same :: drift_env where
  "drift_env_same =
     drift_env_example
       \<lparr>fetch := (\<lambda>url. Inr \<lparr>ok = True, status = 200, res_text = Inr ''local'',
                           res_json = Inr (JObj [(''required'', JArr [JStr ''payload'',
                              JStr ''source'', JStr ''timestamp'', JStr ''eventType'',
                              JStr ''eventId''])])\<rparr>)\<rparr>"

definition drift_env_unreachable :: drift_env where
  "drift_env_unreachable =
     drift_env_example\<lparr>fetch := (\<lambda>url. Inl (TypeError ''fetch failed''))\<rparr>"

text \<open>
  A live WSDL whose binding has no operation left, and a live schema answer that is
  \<open>null\<close>.
\<close>

definition wsdl_no_operations :: jsval where
  "wsdl_no_operations =
     JObj [(''definitions'', JObj [(''binding'',
        JObj [(''@_name'', JStr ''OrderBinding''), (''@_type'', JStr ''tns:OrderPortType'')])])]"

definition drift_env_no_operations :: drift_env where
  "drift_env_no_operations =
     drift_env_example
       \<lparr>xml_parse := (\<lambda>s. if s = ''local'' then Inr wsdl_local else Inr wsdl_no_operations)\<rparr>"

definition drift_env_null_schema :: drift_env where
  "drift_env_null_schema =
     drift_env_example
       \<lparr>fetch := (\<lambda>url. Inr \<lparr>ok = True, status = 200, res_text = Inr ''null'',
                           res_json = Inr JNull\<rparr>)\<rparr>"

text \<open>
  A WSDL whose \<open>AddNoteRequest\<close> declares \<open>text\<close> with an empty \<open>type\<close> attribute and
  the optional \<open>kind\<close> with the type \<open>complex\<close>.
\<close>

definition note_item :: jsval where
  "note_item = JObj [(''@_name'', JStr ''text''), (''@_type'', JStr [])]"

definition kind_item :: jsval where
  "kind_item = JObj [(''@_name'', JStr ''kind''), (''@_type'', JStr ''complex''),
                     (''@_minOccurs'', JStr ''0'')]"

definition note_element :: jsval where
  "note_element =
     JObj [(''@_name'', JStr ''AddNoteRequest''),
           (''complexType'', JObj [(''sequence'', JObj [(''element'',
              JArr [note_item, kind_item])])])]"

definition note_wsdl :: jsval where
  "note_wsdl =
     JObj [(''definitions'', JObj [
       (''types'', JObj [(''schema'', JObj [(''element'', note_element)])]),
       (''binding'', JObj [(''operation'', JObj [(''@_name'', JStr ''AddNote'')])])])]"

definition note_validator :: WsdlValidator where
  "note_validator =
     snd (loadWsdl (\<lambda>p. Inr ''wsdl'') (\<lambda>s. Inr note_wsdl)
            ''schemas/wsdl/notes.wsdl'' new_WsdlValidator)"


definition ping_empty_envelope :: jsval where
  "ping_empty_envelope =
     JObj [(''Envelope'', JObj [(''Body'', JObj [(''PingRequest'', JStr [])])])]"

section \<open>Facts about the association lists\<close>

lemma map_of_Some_key: "map_of al k = Some v \<Longrightarrow> k \<in> fst ` set al"
  by (force dest: map_of_SomeD)

section \<open>SOAP body validation\<close>

text \<open>
  Children of the wrapper that are not expected fields do not change what is missing.
\<close>

lemma extra_children_keep_missing:
  assumes "\<forall>k \<in> set extra. JStr k \<notin> el_name ` set expectedFields"
  shows "missing_of expectedFields (actualKeys @ extra) = missing_of expectedFields actualKeys"
proof -
  have "filter (\<lambda>field. el_required field \<and> el_name field \<notin> set (map JStr (actualKeys @ extra)))
          expectedFields =
        filter (\<lambda>field. el_required field \<and> el_name field \<notin> set (map JStr actualKeys))
          expectedFields"
  proof (rule filter_cong[OF refl])
    fix f assume f: "f \<in> set expectedFields"
    have "el_name f \<notin> JStr ` set extra"
    proof
      assume "el_name f \<in> JStr ` set extra"
      then obtain k where k: "k \<in> set extra" "el_name f = JStr k" by blast
      from f k(2) have "JStr k \<in> el_name ` set expectedFields" by force
      with assms k(1) show False by blast
    qed
    then show "(el_required f \<and> el_name f \<notin> set (map JStr (actualKeys @ extra))) =
               (el_required f \<and> el_name f \<notin> set (map JStr actualKeys))"
      by auto
  qed
  then show ?thesis by (simp add: missing_of_def)
qed

text \<open>
  C1: whatever the loaded model, the envelope, the operation name and the direction are, a
  result that \<open>validateSoapBody\<close> returns has \<open>valid = true\<close> if and only if its
  \<open>missingElements\<close> list is empty. So \<open>valid\<close> is a function of \<open>missingElements\<close> alone:
  two results with the same missing elements have the same verdict, whatever their
  \<open>unexpectedElements\<close> are.
\<close>

theorem valid_iff_no_missing:
  assumes "validateSoapBody xmlParse st xml operationName dir = Inr r"
  shows "valid r = (missingElements r = []) \<and>
         (validateSoapBody xmlParse' st' xml' operationName' dir' = Inr r' \<longrightarrow>
            missingElements r' = missingElements r \<longrightarrow> valid r' = valid r)"
proof -
  have iff: "valid q = (missingElements q = [])"
    if "validateSoapBody p s x n d = Inr q" for p s x n d q
    using that
    by (auto simp: validateSoapBody_def Let_def split: option.splits sum.splits if_splits)
  show ?thesis using iff[OF assms] iff[of xmlParse' st' xml' operationName' dir' r'] by auto
qed

theorem valid_iff_no_missing_witness:
  "validateSoapBody (\<lambda>s. Inr envelope_missing_address) example_validator ''xml''
       ''CreateOrder'' Input =
     Inr \<lparr>valid = False, missingElements = [JStr ''shippingAddress''],
          unexpectedElements = [''priority''], operation = ''CreateOrder''\<rparr> \<and>
   valid \<lparr>valid = False, missingElements = [JStr ''shippingAddress''],
          unexpectedElements = [''priority''], operation = ''CreateOrder''\<rparr> =
     (missingElements \<lparr>valid = False, missingElements = [JStr ''shippingAddress''],
          unexpectedElements = [''priority''], operation = ''CreateOrder''\<rparr> = [])"
proof -
  have run: "validateSoapBody (\<lambda>s. Inr envelope_missing_address) example_validator ''xml''
       ''CreateOrder'' Input =
     Inr \<lparr>valid = False, missingElements = [JStr ''shippingAddress''],
          unexpectedElements = [''priority''], operation = ''CreateOrder''\<rparr>"
    by code_simp
  from valid_iff_no_missing[OF run] run show ?thesis by blast
qed

text \<open>
  C6: for an operation name that is not in the loaded model, \<open>validateSoapBody\<close> returns
  (it does not throw, and does not even parse the envelope) the result with
  \<open>valid = false\<close>, the single missing-element entry \<open>Operation not found: name\<close> and no
  unexpected elements.
\<close>

theorem unknown_operation_is_reported:
  assumes "map_of (operations st) (JStr operationName) = None"
  shows "validateSoapBody xmlParse st xml operationName dir =
           Inr \<lparr>valid = False,
                missingElements = [JStr (''Operation not found: '' @ operationName)],
                unexpectedElements = [],
                operation = operationName\<rparr>"
  using assms by (simp add: validateSoapBody_def)

theorem unknown_operation_is_reported_witness:
  "map_of (operations example_validator) (JStr ''CancelOrder'') = None \<and>
   validateSoapBody (\<lambda>s. Inl (Error ''Unclosed tag'')) example_validator ''<x'' ''CancelOrder''
       Output =
     Inr \<lparr>valid = False,
          missingElements = [JStr ''Operation not found: CancelOrder''],
          unexpectedElements = [],
          operation = ''CancelOrder''\<rparr>"
proof -
  have absent: "map_of (operations example_validator) (JStr ''CancelOrder'') = None"
    by code_simp
  from unknown_operation_is_reported[OF absent, of "\<lambda>s. Inl (Error ''Unclosed tag'')" "''<x''" Output]
  show ?thesis using absent by simp
qed

section \<open>JSON schema validation\<close>

lemma example_registry_validators:
  "validators example_registry =
     [(JStr ''/repo/schemas/messages/order-created-event.schema.json'', example_compiled)]"
  by (simp add: example_registry_def example_sv_env_def loadSchema_def resolve_id_def
        new_SchemaValidator_def Let_def js_or_def)

lemma example_registry_all_validators:
  "validators example_registry_all = [(JStr ''order-created-event'', example_compiled)]"
  by (simp add: example_registry_all_def loadAllMessageSchemas_def example_sv_env_def
        endsWith_def loadSchema_def resolve_id_def new_SchemaValidator_def Let_def)



lemma validate_keeps_keys:
  "map fst (validators (snd (validate st schemaId payload))) = map fst (validators st)"
proof (cases "map_of (validators st) (JStr schemaId)")
  case None
  then show ?thesis by (simp add: validate_def)
next
  case (Some vf)
  then show ?thesis
    by (simp add: validate_def Let_def update_keys map_of_Some_key)
qed

text \<open>
  C9: calling \<open>validate\<close> twice with the same identifier and payload, the second call on
  the registry as the first call left it, gives the same outcome both times (the same
  \<open>valid\<close>, \<open>errors\<close> and \<open>schemaId\<close>, or the same thrown error), and the first call
  leaves the registered identifiers as they were. A compiled validator is taken to be a
  function of the payload; what the first call stores in its \<open>errors\<close> property does not
  reach the second result.
\<close>

theorem validate_twice_same_result:
  "fst (validate (snd (validate st schemaId payload)) schemaId payload) =
     fst (validate st schemaId payload) \<and>
   map fst (validators (snd (validate st schemaId payload))) = map fst (validators st)"
proof (cases "map_of (validators st) (JStr schemaId)")
  case None
  then show ?thesis by (simp add: validate_def)
next
  case (Some vf)
  then show ?thesis
    by (simp add: validate_def Let_def update_conv' update_keys map_of_Some_key)
qed

theorem validate_twice_same_result_witness:
  "fst (validate (snd (validate example_registry_all ''order-created-event'' (JObj [])))
         ''order-created-event'' (JObj [])) =
     Inr \<lparr>vr_valid = False, vr_errors = Some [missing_eventId],
          vr_schemaId = ''order-created-event''\<rparr> \<and>
   fst (validate example_registry_all ''order-created-event'' (JObj [])) =
     Inr \<lparr>vr_valid = False, vr_errors = Some [missing_eventId],
          vr_schemaId = ''order-created-event''\<rparr>"
proof -
  have first: "fst (validate example_registry_all ''order-created-event'' (JObj [])) =
     Inr \<lparr>vr_valid = False, vr_errors = Some [missing_eventId],
          vr_schemaId = ''order-created-event''\<rparr>"
    by (simp add: validate_def example_registry_all_validators example_compiled_def Let_def)
  from validate_twice_same_result[of example_registry_all "''order-created-event''" "JObj []"]
  show ?thesis using first by simp
qed

section \<open>Schema identifiers\<close>

lemma resolve_id_nonempty:
  "absolutePath \<noteq> [] \<Longrightarrow> resolve_id schemaId content absolutePath = Inr ident
     \<Longrightarrow> ident \<noteq> JStr []"
  by (cases schemaId; cases content)
     (auto simp: resolve_id_def js_or_def split: if_splits sum.splits)

lemma loadSchema_keeps:
  assumes "\<forall>p. pathResolve env p \<noteq> []" "JStr [] \<notin> fst ` set (validators st)"
  shows "JStr [] \<notin> fst ` set (validators (snd (loadSchema env schemaPath schemaId st)))"
  using assms
  by (auto simp: loadSchema_def Let_def dom_update split: sum.splits
           dest: resolve_id_nonempty[rotated])

lemma loadAll_loop_keeps:
  assumes "\<forall>p. pathResolve env p \<noteq> []"
  shows "JStr [] \<notin> fst ` set (validators st) \<Longrightarrow>
         JStr [] \<notin> fst ` set (validators (snd (loadAll_loop env dir entries st)))"
proof (induction entries arbitrary: st)
  case Nil
  then show ?case by simp
next
  case (Cons f fs)
  let ?r = "loadSchema env (pathJoin env dir f) (Some (replace_first ''.schema.json'' [] f)) st"
  have k: "JStr [] \<notin> fst ` set (validators (snd ?r))"
    using loadSchema_keeps[OF assms Cons.prems] .
  show ?case
  proof (cases "fst ?r")
    case None
    then have "loadAll_loop env dir (f # fs) st = loadAll_loop env dir fs (snd ?r)"
      by (cases ?r) (simp add: Let_def)
    then show ?thesis using Cons.IH[OF k] by simp
  next
    case (Some e)
    then have "loadAll_loop env dir (f # fs) st = (Some e, snd ?r)"
      by (cases ?r) (simp add: Let_def)
    then show ?thesis using k by simp
  qed
qed

lemma loadAll_keeps:
  assumes "\<forall>p. pathResolve env p \<noteq> []" "JStr [] \<notin> fst ` set (validators st)"
  shows "JStr [] \<notin> fst ` set (validators (snd (loadAllMessageSchemas env schemasDir st)))"
  using assms loadAll_loop_keeps[OF assms(1)]
  by (auto simp: loadAllMessageSchemas_def Let_def split: sum.splits)

lemma reachable_no_empty_id:
  "registry_reachable st \<Longrightarrow> JStr [] \<notin> fst ` set (validators st)"
proof (induction rule: registry_reachable.induct)
  case reach_new
  then show ?case by (simp add: new_SchemaValidator_def)
next
  case (reach_loadSchema st env schemaPath schemaId)
  then show ?case using loadSchema_keeps by blast
next
  case (reach_loadAll st env schemasDir)
  then show ?case using loadAll_keeps by blast
next
  case (reach_validate st schemaId payload)
  have "fst ` set (validators (snd (validate st schemaId payload))) = fst ` set (validators st)"
    using validate_keeps_keys[of st schemaId payload] by (metis set_map)
  then show ?case using reach_validate.IH by simp
qed

text \<open>
  C10: \<open>loadSchema\<close> treats the empty string as no identifier. It registers the compiled
  schema under the identifier that \<open>schemaId || schemaContent.$id || absolutePath\<close>
  resolves to for the document it has read. Called with the \<open>schemaId\<close> \<open>""\<close> it does what
  it does without a \<open>schemaId\<close>: it registers the document under its \<open>$id\<close> when that is
  truthy (a non-empty string), and under the resolved absolute path otherwise, so also
  when \<open>$id\<close> is \<open>""\<close>. Hence in every registry built from a new validator by
  \<open>loadSchema\<close>, \<open>loadAllMessageSchemas\<close> and \<open>validate\<close>, no schema is registered under
  the empty-string identifier.
\<close>

theorem empty_schema_id_is_never_registered:
  assumes "registry_reachable st"
  shows "map_of (validators st) (JStr []) = None \<and>
         loadSchema env schemaPath (Some []) st0 = loadSchema env schemaPath None st0 \<and>
         (readJson env (pathResolve env schemaPath) = Inr document \<and>
          compile env document = Inr compiled \<and> \<not> nullish document \<longrightarrow>
            loadSchema env schemaPath (Some []) st0 =
              (None, st0\<lparr>validators :=
                 AList.update
                   (if js_truthy (get document ''$id'') then get document ''$id''
                    else JStr (pathResolve env schemaPath))
                   compiled (validators st0)\<rparr>)) \<and>
         (readJson env (pathResolve env schemaPath) = Inr document \<and>
          compile env document = Inr compiled \<and>
          resolve_id schemaId document (pathResolve env schemaPath) = Inr ident \<longrightarrow>
            loadSchema env schemaPath schemaId st0 =
              (None, st0\<lparr>validators := AList.update ident compiled (validators st0)\<rparr>)) \<and>
         resolve_id (Some []) content absolutePath = resolve_id None content absolutePath \<and>
         (get content ''$id'' = JStr declared \<and> declared \<noteq> [] \<longrightarrow>
            resolve_id (Some []) content absolutePath = Inr (JStr declared)) \<and>
         (get content ''$id'' = JStr [] \<longrightarrow>
            resolve_id (Some []) content absolutePath = Inr (JStr absolutePath))"
proof -
  have registry: "map_of (validators st) (JStr []) = None"
    using reachable_no_empty_id[OF assms] by (simp add: map_of_eq_None_iff)
  have none_given: "resolve_id (Some []) = resolve_id None"
    by (intro ext) (simp add: resolve_id_def)
  have ignored: "loadSchema env schemaPath (Some []) st0 = loadSchema env schemaPath None st0"
    unfolding loadSchema_def none_given by (rule refl)
  have falls: "loadSchema env schemaPath (Some []) st0 =
      (None, st0\<lparr>validators :=
         AList.update
           (if js_truthy (get document ''$id'') then get document ''$id''
            else JStr (pathResolve env schemaPath))
           compiled (validators st0)\<rparr>)"
    if "readJson env (pathResolve env schemaPath) = Inr document"
       "compile env document = Inr compiled" "\<not> nullish document"
    using that
    by (cases document) (simp_all add: loadSchema_def resolve_id_def js_or_def nullish_def Let_def)
  have linked: "loadSchema env schemaPath schemaId st0 =
      (None, st0\<lparr>validators := AList.update ident compiled (validators st0)\<rparr>)"
    if "readJson env (pathResolve env schemaPath) = Inr document"
       "compile env document = Inr compiled"
       "resolve_id schemaId document (pathResolve env schemaPath) = Inr ident"
    using that by (simp add: loadSchema_def Let_def)
  have same: "resolve_id (Some []) content absolutePath = resolve_id None content absolutePath"
    by (simp add: resolve_id_def)
  have decl: "resolve_id (Some []) content absolutePath = Inr (JStr declared)"
    if "get content ''$id'' = JStr declared" "declared \<noteq> []"
    using that by (cases content) (auto simp: resolve_id_def js_or_def)
  have empty: "resolve_id (Some []) content absolutePath = Inr (JStr absolutePath)"
    if "get content ''$id'' = JStr []"
    using that by (cases content) (auto simp: resolve_id_def js_or_def)
  show ?thesis
    using registry ignored falls linked same decl empty by blast
qed

theorem empty_schema_id_is_never_registered_witness:
  "registry_reachable example_registry \<and>
   map_of (validators example_registry) (JStr []) = None \<and>
   loadSchema example_sv_env ''schemas/messages/order-created-event.schema.json'' (Some [])
       new_SchemaValidator =
     (None, \<lparr>validators =
        [(JStr ''/repo/schemas/messages/order-created-event.schema.json'', example_compiled)]\<rparr>) \<and>
   loadSchema example_sv_env_declared ''schemas/messages/order-created-event.schema.json''
       (Some []) new_SchemaValidator =
     (None, \<lparr>validators = [(JStr ''urn:order-created-event'', example_compiled)]\<rparr>) \<and>
   loadSchema example_sv_env_declared ''schemas/messages/order-created-event.schema.json''
       (Some ''order-created-event'') new_SchemaValidator =
     (None, \<lparr>validators = [(JStr ''order-created-event'', example_compiled)]\<rparr>) \<and>
   resolve_id (Some []) (JObj [(''$id'', JStr [])]) ''/repo/a.json'' = Inr (JStr ''/repo/a.json'') \<and>
   resolve_id (Some []) (JObj [(''$id'', JStr ''urn:a'')]) ''/repo/a.json'' = Inr (JStr ''urn:a'')"
proof -
  let ?path = "''schemas/messages/order-created-event.schema.json''"
  let ?doc_empty = "JObj [(''$id'', JStr []), (''required'', JArr [JStr ''eventId''])]"
  let ?doc_declared =
    "JObj [(''$id'', JStr ''urn:order-created-event''), (''required'', JArr [JStr ''eventId''])]"
  have reach: "registry_reachable example_registry"
    unfolding example_registry_def
    by (rule reach_loadSchema[OF reach_new]) (simp add: example_sv_env_def)
  note empty = empty_schema_id_is_never_registered[OF reach,
      where content = "JObj [(''$id'', JStr [])]" and absolutePath = "''/repo/a.json''"
        and declared = "[]" and env = example_sv_env and schemaPath = ?path
        and ?document = ?doc_empty and compiled = example_compiled
        and ?st0.0 = new_SchemaValidator and schemaId = "Some []"
        and ident = "JStr ''/repo/schemas/messages/order-created-event.schema.json''"]
  note declared = empty_schema_id_is_never_registered[OF reach,
      where content = "JObj [(''$id'', JStr ''urn:a'')]" and absolutePath = "''/repo/a.json''"
        and declared = "''urn:a''" and env = example_sv_env_declared and schemaPath = ?path
        and ?document = ?doc_declared and compiled = example_compiled
        and ?st0.0 = new_SchemaValidator and schemaId = "Some ''order-created-event''"
        and ident = "JStr ''order-created-event''"]
  have read_empty:
    "readJson example_sv_env (pathResolve example_sv_env ?path) = Inr ?doc_empty \<and>
     compile example_sv_env ?doc_empty = Inr example_compiled \<and> \<not> nullish ?doc_empty"
    by (simp add: example_sv_env_def nullish_def)
  have read_declared:
    "readJson example_sv_env_declared (pathResolve example_sv_env_declared ?path)
       = Inr ?doc_declared \<and>
     compile example_sv_env_declared ?doc_declared = Inr example_compiled \<and>
     \<not> nullish ?doc_declared"
    by (simp add: example_sv_env_declared_def example_sv_env_def nullish_def)
  have given: "resolve_id (Some ''order-created-event'') ?doc_declared
                 (pathResolve example_sv_env_declared ?path) = Inr (JStr ''order-created-event'')"
    by (simp add: resolve_id_def)
  have g1: "get (JObj [(''$id'', JStr [])]) ''$id'' = JStr []"
    by simp
  have g2: "get (JObj [(''$id'', JStr ''urn:a'')]) ''$id'' = JStr ''urn:a'' \<and> ''urn:a'' \<noteq> []"
    by simp
  from empty have none: "map_of (validators example_registry) (JStr []) = None"
    by blast
  from empty read_empty
  have "loadSchema example_sv_env ?path (Some []) new_SchemaValidator =
     (None, new_SchemaValidator\<lparr>validators :=
        AList.update
          (if js_truthy (get ?doc_empty ''$id'') then get ?doc_empty ''$id''
           else JStr (pathResolve example_sv_env ?path))
          example_compiled (validators new_SchemaValidator)\<rparr>)"
    by blast
  then have l1: "loadSchema example_sv_env ?path (Some []) new_SchemaValidator =
     (None, \<lparr>validators =
        [(JStr ''/repo/schemas/messages/order-created-event.schema.json'', example_compiled)]\<rparr>)"
    by (simp add: new_SchemaValidator_def example_sv_env_def)
  from declared read_declared
  have "loadSchema example_sv_env_declared ?path (Some []) new_SchemaValidator =
     (None, new_SchemaValidator\<lparr>validators :=
        AList.update
          (if js_truthy (get ?doc_declared ''$id'') then get ?doc_declared ''$id''
           else JStr (pathResolve example_sv_env_declared ?path))
          example_compiled (validators new_SchemaValidator)\<rparr>)"
    by blast
  then have l2: "loadSchema example_sv_env_declared ?path (Some []) new_SchemaValidator =
     (None, \<lparr>validators = [(JStr ''urn:order-created-event'', example_compiled)]\<rparr>)"
    by (simp add: new_SchemaValidator_def)
  from declared read_declared given
  have "loadSchema example_sv_env_declared ?path (Some ''order-created-event'')
          new_SchemaValidator =
     (None, new_SchemaValidator\<lparr>validators :=
        AList.update (JStr ''order-created-event'') example_compiled
          (validators new_SchemaValidator)\<rparr>)"
    by blast
  then have l3: "loadSchema example_sv_env_declared ?path (Some ''order-created-event'')
          new_SchemaValidator =
     (None, \<lparr>validators = [(JStr ''order-created-event'', example_compiled)]\<rparr>)"
    by (simp add: new_SchemaValidator_def)
  from empty g1
  have r1: "resolve_id (Some []) (JObj [(''$id'', JStr [])]) ''/repo/a.json'' =
              Inr (JStr ''/repo/a.json'')"
    by blast
  from declared g2
  have r2: "resolve_id (Some []) (JObj [(''$id'', JStr ''urn:a'')]) ''/repo/a.json'' =
              Inr (JStr ''urn:a'')"
    by blast
  show ?thesis using reach none l1 l2 l3 r1 r2 by blast
qed

section \<open>Schema drift\<close>

lemma fold_push_drift_details:
  "details (fold (\<lambda>x r. if P x then push_drift (msg x) r else r) xs r0) =
     details r0 @ map msg (filter P xs)"
  by (induction xs arbitrary: r0) (simp_all add: push_drift_def push_detail_def)

lemma fold_push_drift_drifted:
  "drifted (fold (\<lambda>x r. if P x then push_drift (msg x) r else r) xs r0) =
     (drifted r0 \<or> (\<exists>x \<in> set xs. P x))"
  by (induction xs arbitrary: r0) (auto simp: push_drift_def push_detail_def)

lemma fold_push_drift_schema:
  "schema (fold (\<lambda>x r. if P x then push_drift (msg x) r else r) xs r0) = schema r0"
  by (induction xs arbitrary: r0) (simp_all add: push_drift_def push_detail_def)

lemma array_includes_strings: "array_includes (map JStr xs) (JStr x) = (x \<in> set xs)"
  by (auto simp: array_includes_def)

text \<open>
  What the comparison of the operation names gives: one "removed" detail for each local
  name that the live list does not include, in order, then one "new" detail for each live
  name that the local list does not include, or the single "match" detail.
\<close>

lemma compare_operations_drifted:
  "drifted (compare_operations localOps liveOps r0) =
     (drifted r0 \<or> (\<exists>opn \<in> set localOps. \<not> array_includes liveOps opn)
                \<or> (\<exists>opn \<in> set liveOps. \<not> array_includes localOps opn))"
  by (auto simp: compare_operations_def Let_def fold_push_drift_drifted push_detail_def)

lemma compare_operations_details:
  "details (compare_operations localOps liveOps r0) =
     details r0
     @ map (\<lambda>opn. ''Operation REMOVED from live WSDL: '' @ js_toString opn)
           (filter (\<lambda>opn. \<not> array_includes liveOps opn) localOps)
     @ map (\<lambda>opn. ''New operation in live WSDL: '' @ js_toString opn)
           (filter (\<lambda>opn. \<not> array_includes localOps opn) liveOps)
     @ (if drifted (compare_operations localOps liveOps r0) then []
        else [''All operations match''])"
  by (auto simp: compare_operations_def Let_def fold_push_drift_drifted
        fold_push_drift_details push_detail_def)

lemma compare_operations_schema:
  "schema (compare_operations localOps liveOps r0) = schema r0"
  by (simp add: compare_operations_def Let_def fold_push_drift_schema push_detail_def)

lemma wsdl_reaches_comparison:
  assumes "existsSync env (path_resolve env ''schemas/wsdl/order-service.wsdl'')"
    "APP2_STAGING_URL env = Some app2Url" "app2Url \<noteq> []"
    "fetch env (app2Url @ ''/ws/orders?wsdl'') = Inr liveResponse" "ok liveResponse"
    "res_text liveResponse = Inr liveWsdl"
    "readFileSync env (path_resolve env ''schemas/wsdl/order-service.wsdl'') = Inr localWsdl"
    "xml_parse env localWsdl = Inr localParsed" "xml_parse env liveWsdl = Inr liveParsed"
    "extractOperationNames localParsed = Inr localOps"
    "extractOperationNames liveParsed = Inr liveOps"
  shows "checkWsdlDrift env =
     compare_operations localOps liveOps
       \<lparr>schema = ''App2 WSDL (order-service.wsdl)'', drifted = False, details = []\<rparr>"
  using assms by (simp add: checkWsdlDrift_def checkWsdlDrift_try_def Let_def)

text \<open>
  When both operation lists are extracted and hold strings, the WSDL check reports exactly
  the symmetric difference of the two sets of names.
\<close>

lemma wsdl_drift_of_extracted_names:
  assumes "existsSync env (path_resolve env ''schemas/wsdl/order-service.wsdl'')"
    "APP2_STAGING_URL env = Some app2Url" "app2Url \<noteq> []"
    "fetch env (app2Url @ ''/ws/orders?wsdl'') = Inr liveResponse" "ok liveResponse"
    "res_text liveResponse = Inr liveWsdl"
    "readFileSync env (path_resolve env ''schemas/wsdl/order-service.wsdl'') = Inr localWsdl"
    "xml_parse env localWsdl = Inr localParsed" "xml_parse env liveWsdl = Inr liveParsed"
    "extractOperationNames localParsed = Inr (map JStr localNames)"
    "extractOperationNames liveParsed = Inr (map JStr liveNames)"
  shows "checkWsdlDrift env =
     \<lparr>schema = ''App2 WSDL (order-service.wsdl)'',
      drifted = (set localNames \<noteq> set liveNames),
      details =
        map (\<lambda>n. ''Operation REMOVED from live WSDL: '' @ n)
            (filter (\<lambda>n. n \<notin> set liveNames) localNames)
        @ map (\<lambda>n. ''New operation in live WSDL: '' @ n)
              (filter (\<lambda>n. n \<notin> set localNames) liveNames)
        @ (if set localNames = set liveNames then [''All operations match''] else [])\<rparr>"
proof -
  let ?r = "compare_operations (map JStr localNames) (map JStr liveNames)
       \<lparr>schema = ''App2 WSDL (order-service.wsdl)'', drifted = False, details = []\<rparr>"
  have run: "checkWsdlDrift env = ?r"
    using wsdl_reaches_comparison[OF assms] .
  have d: "drifted ?r = (set localNames \<noteq> set liveNames)"
    by (auto simp: compare_operations_drifted array_includes_strings)
  have l: "details ?r =
        map (\<lambda>n. ''Operation REMOVED from live WSDL: '' @ n)
            (filter (\<lambda>n. n \<notin> set liveNames) localNames)
        @ map (\<lambda>n. ''New operation in live WSDL: '' @ n)
              (filter (\<lambda>n. n \<notin> set localNames) liveNames)
        @ (if set localNames = set liveNames then [''All operations match''] else [])"
    unfolding compare_operations_details d
    by (simp add: filter_map comp_def array_includes_strings)
  have s: "schema ?r = ''App2 WSDL (order-service.wsdl)''"
    by (simp add: compare_operations_schema)
  show ?thesis unfolding run using d l s by (cases ?r) simp
qed

lemma report_absent_strings:
  "report_absent prefix otherName (JArr (map JStr others)) (map JStr names) r =
     (None, fold (\<lambda>n r. if n \<notin> set others then push_drift (prefix @ n) r else r) names r)"
  by (induction names arbitrary: r) (simp_all add: array_includes_strings)

text \<open>
  When both documents have an array of strings as \<open>required\<close>, the comparison of the
  required fields reports exactly the symmetric difference of the two sets of names.
\<close>

lemma compare_required_strings:
  "compare_required (JArr (map JStr localNames)) (JArr (map JStr liveNames)) r0 =
     (None,
      r0\<lparr>drifted := drifted r0 \<or> set localNames \<noteq> set liveNames,
         details :=
           details r0
           @ map (\<lambda>n. ''Required field removed from live schema: '' @ n)
               (filter (\<lambda>n. n \<notin> set liveNames) localNames)
           @ map (\<lambda>n. ''New required field in live schema: '' @ n)
               (filter (\<lambda>n. n \<notin> set localNames) liveNames)
           @ (if drifted r0 \<or> set localNames \<noteq> set liveNames then []
              else [''Message schemas match''])\<rparr>)"
proof -
  let ?r1 = "fold (\<lambda>n r. if n \<notin> set liveNames
                then push_drift (''Required field removed from live schema: '' @ n) r else r)
              localNames r0"
  let ?r2 = "fold (\<lambda>n r. if n \<notin> set localNames
                then push_drift (''New required field in live schema: '' @ n) r else r)
              liveNames ?r1"
  let ?r3 = "if \<not> drifted ?r2 then push_detail ''Message schemas match'' ?r2 else ?r2"
  have run: "compare_required (JArr (map JStr localNames)) (JArr (map JStr liveNames)) r0 =
      (None, ?r3)"
    by (simp add: compare_required_def report_absent_strings)
  have d: "drifted ?r3 = (drifted r0 \<or> set localNames \<noteq> set liveNames)"
    by (auto simp: fold_push_drift_drifted push_detail_def)
  have l: "details ?r3 =
           details r0
           @ map (\<lambda>n. ''Required field removed from live schema: '' @ n)
               (filter (\<lambda>n. n \<notin> set liveNames) localNames)
           @ map (\<lambda>n. ''New required field in live schema: '' @ n)
               (filter (\<lambda>n. n \<notin> set localNames) liveNames)
           @ (if drifted r0 \<or> set localNames \<noteq> set liveNames then []
              else [''Message schemas match''])"
    by (auto simp: fold_push_drift_drifted fold_push_drift_details push_detail_def)
  have s: "schema ?r3 = schema r0"
    by (simp add: fold_push_drift_schema push_detail_def)
  have "?r3 = r0\<lparr>drifted := drifted r0 \<or> set localNames \<noteq> set liveNames,
         details :=
           details r0
           @ map (\<lambda>n. ''Required field removed from live schema: '' @ n)
               (filter (\<lambda>n. n \<notin> set liveNames) localNames)
           @ map (\<lambda>n. ''New required field in live schema: '' @ n)
               (filter (\<lambda>n. n \<notin> set localNames) liveNames)
           @ (if drifted r0 \<or> set localNames \<noteq> set liveNames then []
              else [''Message schemas match''])\<rparr>"
    using d l s by (cases ?r3; cases r0) simp
  then show ?thesis using run by simp
qed

lemma message_drift_of_required_names:
  assumes "INTEGRATION_LAYER_URL env = Some url" "url \<noteq> []"
    "fetch env (url @ ''/api/schemas/order-events'') = Inr schemaResponse" "ok schemaResponse"
    "res_json schemaResponse = Inr liveSchema"
    "readFileSync env (path_resolve env ''schemas/messages/order-created-event.schema.json'')
       = Inr content"
    "JSON_parse env content = Inr localSchema"
    "get localSchema ''required'' = JArr (map JStr localNames)"
    "get liveSchema ''required'' = JArr (map JStr liveNames)"
  shows "checkMessageSchemaDrift env =
     \<lparr>schema = ''Integration Layer Message Schemas'',
      drifted = (set localNames \<noteq> set liveNames),
      details =
        map (\<lambda>n. ''Required field removed from live schema: '' @ n)
            (filter (\<lambda>n. n \<notin> set liveNames) localNames)
        @ map (\<lambda>n. ''New required field in live schema: '' @ n)
              (filter (\<lambda>n. n \<notin> set localNames) liveNames)
        @ (if set localNames = set liveNames then [''Message schemas match''] else [])\<rparr>"
proof -
  have l: "read_prop localSchema ''required'' = Inr (JArr (map JStr localNames))"
    using assms(8) by (cases localSchema) auto
  have v: "read_prop liveSchema ''required'' = Inr (JArr (map JStr liveNames))"
    using assms(9) by (cases liveSchema) auto
  show ?thesis
    using assms(1-7) l v
    by (simp add: checkMessageSchemaDrift_def checkMessageSchemaDrift_try_def Let_def js_or_def
          compare_required_strings)
qed

lemma wsdl_fetch_throws:
  assumes "existsSync env (path_resolve env ''schemas/wsdl/order-service.wsdl'')"
    "APP2_STAGING_URL env = Some app2Url" "app2Url \<noteq> []"
    "fetch env (app2Url @ ''/ws/orders?wsdl'') = Inl e"
  shows "checkWsdlDrift env =
       \<lparr>schema = ''App2 WSDL (order-service.wsdl)'', drifted = False,
        details = [''Error checking WSDL drift: '' @ message e]\<rparr>"
  using assms
  by (simp add: checkWsdlDrift_def checkWsdlDrift_try_def Let_def push_detail_def)

lemma wsdl_non_ok:
  assumes "existsSync env (path_resolve env ''schemas/wsdl/order-service.wsdl'')"
    "APP2_STAGING_URL env = Some app2Url" "app2Url \<noteq> []"
    "fetch env (app2Url @ ''/ws/orders?wsdl'') = Inr liveResponse" "\<not> ok liveResponse"
  shows "checkWsdlDrift env =
       \<lparr>schema = ''App2 WSDL (order-service.wsdl)'', drifted = True,
        details = [''Failed to fetch live WSDL: HTTP '' @ show_nat (status liveResponse)]\<rparr>"
  using assms
  by (simp add: checkWsdlDrift_def checkWsdlDrift_try_def Let_def push_detail_def push_drift_def)

lemma message_non_ok:
  assumes "INTEGRATION_LAYER_URL env = Some url" "url \<noteq> []"
    "fetch env (url @ ''/api/schemas/order-events'') = Inr schemaResponse"
    "\<not> ok schemaResponse"
  shows "checkMessageSchemaDrift env =
       \<lparr>schema = ''Integration Layer Message Schemas'', drifted = False,
        details = [''Integration Layer does not expose schemas via API '' @ em_dash
                     @ '' manual check required'']\<rparr>"
  using assms
  by (simp add: checkMessageSchemaDrift_def checkMessageSchemaDrift_try_def Let_def
        push_detail_def push_drift_def)

text \<open>
  The two scenarios of the specification: the live WSDL has lost \<open>GetOrderStatus\<close>, and
  the live message schema requires \<open>priority\<close> in addition; then the environment whose
  live documents have the names of the local ones.
\<close>

lemma scenario_operation_removed:
  "checkWsdlDrift drift_env_example =
     \<lparr>schema = ''App2 WSDL (order-service.wsdl)'', drifted = True,
      details = [''Operation REMOVED from live WSDL: GetOrderStatus'']\<rparr>"
  by code_simp

lemma scenario_required_field_added:
  "checkMessageSchemaDrift drift_env_example =
     \<lparr>schema = ''Integration Layer Message Schemas'', drifted = True,
      details = [''New required field in live schema: priority'']\<rparr>"
  by code_simp

lemma scenario_same_names:
  "checkWsdlDrift drift_env_same =
     \<lparr>schema = ''App2 WSDL (order-service.wsdl)'', drifted = False,
      details = [''All operations match'']\<rparr> \<and>
   checkMessageSchemaDrift drift_env_same =
     \<lparr>schema = ''Integration Layer Message Schemas'', drifted = False,
      details = [''Message schemas match'']\<rparr>"
  by code_simp

text \<open>
  A live schema answer that is \<open>null\<close>: reading \<open>required\<close> throws, and the \<open>catch\<close> block
  reports the error without drift.
\<close>

lemma null_schema_answer_not_drifted:
  "checkMessageSchemaDrift drift_env_null_schema =
     \<lparr>schema = ''Integration Layer Message Schemas'', drifted = False,
      details = [''Error checking message schema drift: ''
                   @ ''Cannot read properties of null (reading '' @ quoted ''required'' @ '')'']\<rparr>"
  by code_simp

text \<open>
  C2: the specification states that, when the local baseline loads and the live fetch
  succeeds, the check reports the symmetric difference of the local and live names: a
  "removed" detail and \<open>drifted = true\<close> for every name that is local and not live, a "new"
  detail and \<open>drifted = true\<close> for every name that is live and not local, \<open>drifted = false\<close>
  and a "match" detail for equal sets. That is what the check does when both lists of
  names are extracted (\<open>wsdl_drift_of_extracted_names\<close>, \<open>message_drift_of_required_names\<close>).
  It is not what it does for a live WSDL whose binding has lost every operation: the
  baseline loads with \<open>CreateOrder\<close> and \<open>GetOrderStatus\<close>, the fetch succeeds, the
  extraction of the live names throws on the missing \<open>operation\<close> entry, and the \<open>catch\<close>
  block reports the error with \<open>drifted = false\<close> and no "removed" detail.
\<close>

theorem removed_operations_not_reported:
  "extractOperationNames wsdl_local = Inr [JStr ''CreateOrder'', JStr ''GetOrderStatus''] \<and>
   extractOperationNames wsdl_no_operations =
     Inl (TypeError (''Cannot read properties of undefined (reading '' @ quoted ''@_name''
                       @ '')'')) \<and>
   checkWsdlDrift drift_env_no_operations =
     \<lparr>schema = ''App2 WSDL (order-service.wsdl)'', drifted = False,
      details = [''Error checking WSDL drift: ''
                   @ ''Cannot read properties of undefined (reading '' @ quoted ''@_name''
                   @ '')'']\<rparr> \<and>
   \<not> hasDrift [checkWsdlDrift drift_env_no_operations]"
  by code_simp

text \<open>
  C3: the specification states that the WSDL check reports \<open>drifted = true\<close>, with a
  detail for the failure, whenever the live endpoint is unreachable or answers with a non-success status,
  and that the message check turns a non-success answer into \<open>drifted = false\<close> with the
  "manual check required" detail. The non-success answers behave so
  (\<open>wsdl_non_ok\<close>, \<open>message_non_ok\<close>). An unreachable endpoint does not: \<open>fetch\<close> throws,
  the \<open>catch\<close> block records the error and leaves \<open>drifted\<close> as it was, \<open>false\<close>.
\<close>

theorem unreachable_wsdl_endpoint_not_drifted:
  "checkWsdlDrift drift_env_unreachable =
     \<lparr>schema = ''App2 WSDL (order-service.wsdl)'', drifted = False,
      details = [''Error checking WSDL drift: fetch failed'']\<rparr> \<and>
   \<not> hasDrift [checkWsdlDrift drift_env_unreachable,
                checkMessageSchemaDrift drift_env_unreachable]"
  by code_simp

section \<open>Fields of a WSDL element\<close>

text \<open>
  C4 (as amended): for the items extracted from the sequence of a WSDL element (those with
  a name), in order, the descriptor of an item has the item's name, \<open>required = false\<close>
  exactly when the item's \<open>minOccurs\<close> attribute is the string \<open>"0"\<close>, and as \<open>type\<close> the
  item's \<open>type\<close> attribute when that is declared and not empty, \<open>"complex"\<close> otherwise. So
  \<open>type\<close> is \<open>"complex"\<close> exactly when the attribute is absent, empty, or \<open>"complex"\<close>
  itself.
\<close>

theorem getElementFields_descriptors:
  assumes "map_of (rawElements st) (JStr elementName) = Some element"
    and "js_truthy element"
    and "sequence = js_or (opt_get (opt_get (get element ''complexType'') ''sequence'') ''element'')
                          (opt_get (get element ''complexType'') ''sequence'')"
    and "js_truthy sequence"
  shows "list_all2
           (\<lambda>item f. el_name f = get item ''@_name'' \<and>
                     el_required f = (get item ''@_minOccurs'' \<noteq> JStr ''0'') \<and>
                     el_type f = (if js_truthy (get item ''@_type'') then get item ''@_type''
                                  else JStr ''complex'') \<and>
                     (el_type f = JStr ''complex'') =
                       (\<not> js_truthy (get item ''@_type'') \<or> get item ''@_type'' = JStr ''complex''))
           (filter (\<lambda>item. js_truthy (opt_get item ''@_name'')) (as_array sequence))
           (getElementFields st elementName)"
proof -
  have fields: "getElementFields st elementName =
      map field_of (filter (\<lambda>item. js_truthy (opt_get item ''@_name'')) (as_array sequence))"
    using assms by (simp add: getElementFields_def Let_def)
  show ?thesis
    unfolding fields list_all2_map2
    by (rule list_all2_refl) (auto simp: field_of_def js_or_def)
qed

theorem getElementFields_descriptors_witness:
  "map_of (rawElements note_validator) (JStr ''AddNoteRequest'') = Some note_element \<and>
   list_all2
     (\<lambda>item f. el_name f = get item ''@_name'' \<and>
               el_required f = (get item ''@_minOccurs'' \<noteq> JStr ''0'') \<and>
               el_type f = (if js_truthy (get item ''@_type'') then get item ''@_type''
                            else JStr ''complex'') \<and>
               (el_type f = JStr ''complex'') =
                 (\<not> js_truthy (get item ''@_type'') \<or> get item ''@_type'' = JStr ''complex''))
     [note_item, kind_item]
     (getElementFields note_validator ''AddNoteRequest'')"
proof -
  have h1: "map_of (rawElements note_validator) (JStr ''AddNoteRequest'') = Some note_element"
    by code_simp
  have h2: "js_truthy note_element"
    by (simp add: note_element_def)
  have h3: "JArr [note_item, kind_item] =
      js_or (opt_get (opt_get (get note_element ''complexType'') ''sequence'') ''element'')
            (opt_get (get note_element ''complexType'') ''sequence'')"
    by code_simp
  have h4: "js_truthy (JArr [note_item, kind_item])"
    by simp
  have items: "filter (\<lambda>item. js_truthy (opt_get item ''@_name''))
                 (as_array (JArr [note_item, kind_item])) = [note_item, kind_item]"
    by code_simp
  from getElementFields_descriptors[OF h1 h2 h3 h4] h1 show ?thesis
    unfolding items by blast
qed

text \<open>
  The statement of the specification, "\<open>type\<close> is \<open>"complex"\<close> exactly when no type
  attribute is declared", fails for \<open>AddNoteRequest\<close>: both items declare a \<open>type\<close> attribute and both
  descriptors have the type \<open>"complex"\<close>.
\<close>

theorem complex_type_with_declared_type:
  "getElementFields note_validator ''AddNoteRequest'' = [field_of note_item, field_of kind_item] \<and>
   get note_item ''@_type'' = JStr [] \<and> el_type (field_of note_item) = JStr ''complex'' \<and>
   get kind_item ''@_type'' = JStr ''complex'' \<and> el_type (field_of kind_item) = JStr ''complex''"
  by code_simp

section \<open>Operations whose element is not declared\<close>



lemma loop_rawElements:
  "rawElements (snd (extractOperations_loop ops st)) = rawElements st"
  by (induction ops arbitrary: st) (auto simp: Let_def split: sum.splits)






lemma truthy_get_not_nullish: "js_truthy (get v k) \<Longrightarrow> \<exists>kvs. v = JObj kvs"
  by (cases v) auto






section \<open>Requests built from the field list\<close>

lemma missing_of_all_present:
  "\<forall>f \<in> set expectedFields. el_required f \<longrightarrow> el_name f \<in> JStr ` set actualKeys
     \<Longrightarrow> missing_of expectedFields actualKeys = []"
  by (auto simp: missing_of_def filter_empty_conv)

lemma unexpected_of_all_expected:
  "\<forall>k \<in> set actualKeys. JStr k \<in> el_name ` set expectedFields \<or> startsWith k ''@_''
     \<Longrightarrow> unexpected_of expectedFields actualKeys = []"
  by (auto simp: unexpected_of_def filter_empty_conv)

lemma request_with_exactly_the_fields_is_valid:
  assumes "map_of (operations st) (JStr operationName) = Some opn"
    and "xmlParse xml = Inr envelope"
    and "wrapper = get (opt_get (get envelope ''Envelope'') ''Body'') (operationName @ ''Request'')"
    and "js_truthy wrapper"
    and "JStr ` {k \<in> set (Object_keys wrapper). \<not> startsWith k ''@_''} = el_name ` set (op_input opn)"
  shows "validateSoapBody xmlParse st xml operationName Input =
           Inr \<lparr>valid = True, missingElements = [], unexpectedElements = [],
                operation = operationName\<rparr>"
proof -
  let ?body = "opt_get (get envelope ''Envelope'') ''Body''"
  from assms(3,4) obtain kvs where body: "?body = JObj kvs"
    using truthy_get_not_nullish by blast
  then have "\<not> nullish (get envelope ''Envelope'')"
    by (auto simp: opt_get_def split: if_splits)
  then obtain evs where env: "envelope = JObj evs"
    by (cases envelope) (auto simp: nullish_def)
  have rd: "read_prop envelope ''Envelope'' = Inr (get envelope ''Envelope'')"
    using env by simp
  have m: "missing_of (op_input opn) (Object_keys wrapper) = []"
    using assms(5) by (intro missing_of_all_present) blast
  have u: "unexpected_of (op_input opn) (Object_keys wrapper) = []"
    using assms(5) by (intro unexpected_of_all_expected) blast
  show ?thesis
    using assms(1,2,4) body rd m u unfolding assms(3)
    by (auto simp: validateSoapBody_def Let_def)
qed

text \<open>
  C8: the specification states that a request body whose wrapper holds exactly the input
  fields of an operation validates with \<open>valid = true\<close> and nothing missing or unexpected. That holds
  whenever the parsed wrapper is truthy (\<open>request_with_exactly_the_fields_is_valid\<close>). For
  an operation without input fields, as \<open>Ping\<close>, the wrapper with exactly those fields is
  an empty element, which the parser gives as the empty string: \<open>!responseBody\<close> holds and
  the wrapper that is in the body is reported as not found.
\<close>

theorem empty_request_wrapper_is_rejected:
  "map_of (operations example_validator) (JStr ''Ping'') =
     Some \<lparr>op_name = JStr ''Ping'', soapAction = JStr [], op_input = [], op_output = []\<rparr> \<and>
   get (get (get ping_empty_envelope ''Envelope'') ''Body'') ''PingRequest'' = JStr [] \<and>
   Object_keys (JStr []) = [] \<and>
   validateSoapBody (\<lambda>s. Inr ping_empty_envelope) example_validator ''xml'' ''Ping'' Input =
     Inr \<lparr>valid = False,
          missingElements = [JStr ''PingRequest element not found in SOAP Body''],
          unexpectedElements = [], operation = ''Ping''\<rparr>"
  by code_simp

end
